theory Spec2Isabelle
  imports Complex_Main
begin

section \<open>The caretaker portal's request handlers (methods.js)\<close>

text \<open>
  A shallow embedding of \<^verbatim>\<open>src/methods.js\<close>: the handlers of the medication
  search, of the schedule and session posts, the medication catalog upsert and the two
  reports on a patient's cabinet and ingestion times. The relational store, the mail
  transport and the external drug database are the program's collaborators: their
  answers are parameters of the model (an environment record, or functions handed to
  the handler), and what the handlers do to them is recorded in an explicit state.
\<close>

subsection \<open>JavaScript values\<close>

text \<open>
  The values a JSON request body and a store column hold. A field that is missing from
  an object reads as \<open>JUndefined\<close>. Numbers are the integers (ids, flags and
  timestamps) and NaN; \<open>JDate t\<close> is a Date object with time value \<open>t\<close> in
  milliseconds since the epoch, \<open>JDate None\<close> the invalid date.
\<close>

datatype jsval =
  JUndefined | JNull | JBool bool | JNum int | JNaN | JStr string | JDate "int option"

text \<open>ToBoolean: what \<^verbatim>\<open>!v\<close> and \<^verbatim>\<open>if (v)\<close> test. Every object is truthy.\<close>

fun truthy :: "jsval \<Rightarrow> bool" where
  "truthy JUndefined = False"
| "truthy JNull = False"
| "truthy (JBool b) = b"
| "truthy (JNum n) = (n \<noteq> 0)"
| "truthy JNaN = False"
| "truthy (JStr s) = (s \<noteq> [])"
| "truthy (JDate t) = True"


subsection \<open>Errors and responses\<close>

text \<open>
  The exceptions of the handlers: \<^verbatim>\<open>throw Error\<close> of the identifier check (the
  constructor itself is thrown), the TypeError of iterating or reading a value that is
  undefined or null, a statement or query the store rejects,
  \<^verbatim>\<open>new Error('Patient or caretaker not found.')\<close> and a rejected
  \<^verbatim>\<open>sendMail\<close>.
\<close>

datatype error =
  ErrorConstructor | TypeError | StoreError | PatientOrCaretakerNotFound | MailError

text \<open>The answer of a collaborator to a call that it may reject (the promise rejects).\<close>

datatype 'a answer = Rejected | Returned 'a

text \<open>An Express response: the status (200 unless \<^verbatim>\<open>res.status\<close> sets it) and the body sent.\<close>

record 'b response =
  status :: nat
  body :: 'b

subsection \<open>Medication Lookup Adapter\<close>

text \<open>The medication summary the lookup hands on; \<open>med_id\<close> is its \<^verbatim>\<open>id\<close> field.\<close>

record medication =
  med_id :: string
  brand_name :: string
  generic_name :: string
  product_ndc :: "string list"

text \<open>
  Modelled from the spec: \<^verbatim>\<open>utils.mapMedicationData\<close> (utils.js is not among the
  sources). The upstream results are mapped, one by one, into the summary shape; the
  mapping of one result is the parameter \<open>summary\<close>.
\<close>

definition mapMedicationData :: "('r \<Rightarrow> medication) \<Rightarrow> 'r list \<Rightarrow> medication list" where
  "mapMedicationData summary rs = map summary rs"

text \<open>
  \<^verbatim>\<open>axios.get(url)\<close> is a parameter \<open>get\<close>: \<open>Rejected\<close> when the request
  fails, \<open>Returned r\<close> with \<open>r\<close> the \<^verbatim>\<open>response.data.results\<close> of the
  answer (\<open>None\<close> when the answer carries no results).
  \<^verbatim>\<open>constants.FDABaseUrl\<close> is the parameter \<open>base\<close>.
\<close>

type_synonym 'r axios_get = "string \<Rightarrow> 'r list option answer"

definition dquote :: string where
  "dquote = [CHR 0x22]"

definition search_url :: "string \<Rightarrow> string \<Rightarrow> string" where
  "search_url base searchQuery =
     (let query = ''search=(openfda.brand_name:'' @ dquote @ searchQuery @ dquote
            @ '' OR openfda.generic_name:'' @ dquote @ searchQuery @ dquote
            @ ''OR openfda.product_ndc:'' @ dquote @ searchQuery @ dquote @ '')''
      in base @ ''?'' @ query @ ''&limit=10'')"

text \<open>
  \<^verbatim>\<open>search_medications\<close>: the result pairs the URLs requested with the response
  sent.
\<close>

definition search_medications ::
  "string \<Rightarrow> 'r axios_get \<Rightarrow> ('r \<Rightarrow> medication) \<Rightarrow> string
     \<Rightarrow> string list \<times> medication list response" where
  "search_medications base get summary searchQuery =
     (let url = search_url base searchQuery in
      ([url],
       case get url of
         Returned (Some rs) \<Rightarrow> \<lparr>status = 200, body = mapMedicationData summary rs\<rparr>
       | Returned None \<Rightarrow> \<lparr>status = 200, body = []\<rparr>
       | Rejected \<Rightarrow> \<lparr>status = 404, body = []\<rparr>))"



subsection \<open>Medication Catalog Store\<close>

record ndc =
  code :: string
  medication_id :: string

text \<open>
  Modelled from the spec: the keys of the two tables (database.js is not among the
  sources). A Medication row is keyed by its id, an NDC row by its code. A table is the
  list of its rows; \<open>upsert\<close> overwrites the row that has the key of the new one, or
  appends the new row when there is none.
\<close>

record catalog =
  medications :: "medication list"
  ndcs :: "ndc list"





subsection \<open>The store under a transaction\<close>

text \<open>The identifiers of a write request's body.\<close>

record ids =
  cabinet_id :: jsval
  patient_id :: jsval

text \<open>An element of \<^verbatim>\<open>req.body.medications\<close> and the Schedule row made from it.\<close>

record schedule_item =
  medication_id :: jsval
  day :: jsval
  time :: jsval

record schedule_row = schedule_item +
  patient_id :: jsval

text \<open>An element of \<^verbatim>\<open>req.body.session_intakes\<close> and the SessionIntake row made from it.\<close>

record session_intake =
  medication_id :: jsval
  start_time :: jsval
  ingest_time :: jsval
  end_time :: jsval
  ingested :: jsval

record session_intake_row = session_intake +
  session_id :: nat

text \<open>The Session row: the identifiers of the body and the id the store gives it.\<close>

record session_row = ids +
  pk :: nat

text \<open>
  The two request bodies. The array field is \<open>None\<close> when the body holds nothing
  that \<^verbatim>\<open>for ... of\<close> can iterate.
\<close>

record schedule_body = ids +
  medications :: "schedule_item list option"

record session_body = ids +
  session_intakes :: "session_intake list option"

datatype row =
  ScheduleRow schedule_row | SessionRow session_row | SessionIntakeRow session_intake_row

text \<open>
  The state a handler works on: the rows the store holds durably (visible to every
  connection), the rows written inside the open transaction \<^verbatim>\<open>t\<close> of the request
  (visible nowhere else until the commit), and the mails handed to the transport, each
  with the position of the intake it was sent for.
\<close>

record world =
  committed :: "row list"
  pending :: "row list"
  outbox :: "(nat \<times> string) list"

text \<open>
  The options of a write. \<^verbatim>\<open>sequelize.transaction()\<close> without a callback gives an
  unmanaged transaction: a statement belongs to it only when the call passes
  \<^verbatim>\<open>{ transaction: t }\<close>; a statement without the option runs on a connection
  of its own and is durable as soon as it returns.
\<close>

datatype options = NoOptions | Transaction

definition transaction :: "world \<Rightarrow> world" where
  "transaction w = w\<lparr>pending := []\<rparr>"

definition create :: "bool \<Rightarrow> row \<Rightarrow> options \<Rightarrow> world \<Rightarrow> error + world" where
  "create accepted r opts w =
     (if \<not> accepted then Inl StoreError
      else case opts of
        Transaction \<Rightarrow> Inr (w\<lparr>pending := pending w @ [r]\<rparr>)
      | NoOptions \<Rightarrow> Inr (w\<lparr>committed := committed w @ [r]\<rparr>))"

definition commit :: "world \<Rightarrow> world" where
  "commit w = w\<lparr>committed := committed w @ pending w, pending := []\<rparr>"

definition rollback :: "world \<Rightarrow> world" where
  "rollback w = w\<lparr>pending := []\<rparr>"

text \<open>
  The collaborators' answers during one request: whether the store accepts the Session
  row and which id it gives it, whether it accepts the row of the i-th element of the
  loop, what \<^verbatim>\<open>Patient.findOne\<close> with the Caretaker included returns, and whether
  the transport accepts the mail sent for the i-th intake.
\<close>

record caretaker =
  email :: string

record patient =
  Caretaker :: "caretaker option"

record env =
  session_accepted :: bool
  new_session_id :: nat
  intake_accepted :: "nat \<Rightarrow> bool"
  schedule_accepted :: "nat \<Rightarrow> bool"
  Patient_findOne :: "jsval \<Rightarrow> patient option answer"
  mail_accepted :: "nat \<Rightarrow> bool"

text \<open>What a write handler ends with: the response sent, the error logged, the state.\<close>

record handled =
  reply :: "string response"
  logged :: "error option"
  final :: world

text \<open>The \<^verbatim>\<open>catch\<close> block of the write handlers, and their last two statements.\<close>

definition bad_request :: "error \<Rightarrow> world \<Rightarrow> handled" where
  "bad_request err w =
     \<lparr>reply = \<lparr>status = 400, body = ''Bad Request''\<rparr>, logged = Some err, final = rollback w\<rparr>"

definition received :: "string \<Rightarrow> world \<Rightarrow> handled" where
  "received message w =
     \<lparr>reply = \<lparr>status = 200, body = message\<rparr>, logged = None, final = commit w\<rparr>"

subsection \<open>Schedule Recorder\<close>

text \<open>The values \<^verbatim>\<open>post_schedule\<close> passes to \<^verbatim>\<open>Schedule.create\<close>.\<close>

definition schedule_values :: "jsval \<Rightarrow> schedule_item \<Rightarrow> schedule_row" where
  "schedule_values pid schedule =
     \<lparr>schedule_item.medication_id = schedule_item.medication_id schedule,
      day = day schedule, time = time schedule, schedule_row.patient_id = pid\<rparr>"

text \<open>
  The loop of \<^verbatim>\<open>post_schedule\<close> from position \<open>i\<close> on: the exception that ends
  it, if any, and the state. \<^verbatim>\<open>Schedule.create\<close> is called without options.
\<close>

fun schedule_loop ::
  "env \<Rightarrow> jsval \<Rightarrow> nat \<Rightarrow> schedule_item list \<Rightarrow> world \<Rightarrow> error option \<times> world" where
  "schedule_loop e pid i [] w = (None, w)"
| "schedule_loop e pid i (schedule # rest) w =
     (case create (schedule_accepted e i) (ScheduleRow (schedule_values pid schedule))
             NoOptions w of
        Inl err \<Rightarrow> (Some err, w)
      | Inr w1 \<Rightarrow> schedule_loop e pid (Suc i) rest w1)"

definition post_schedule :: "env \<Rightarrow> schedule_body \<Rightarrow> world \<Rightarrow> handled" where
  "post_schedule e b w0 =
     (let cid = cabinet_id b; pid = ids.patient_id b; w = transaction w0 in
      if pid = JUndefined \<or> cid = JUndefined then bad_request ErrorConstructor w
      else case medications b of
        None \<Rightarrow> bad_request TypeError w
      | Some medication_schedules \<Rightarrow>
          (case schedule_loop e pid 0 medication_schedules w of
             (Some err, w1) \<Rightarrow> bad_request err w1
           | (None, w1) \<Rightarrow> received ''Schedule received successfully.'' w1))"

subsection \<open>Caretaker Notifier\<close>

record caretaker_email =
  patient :: patient
  caretakerEmail :: string

definition getCaretakerEmail :: "env \<Rightarrow> jsval \<Rightarrow> error + caretaker_email" where
  "getCaretakerEmail e patientId =
     (case Patient_findOne e patientId of
        Rejected \<Rightarrow> Inl StoreError
      | Returned None \<Rightarrow> Inl PatientOrCaretakerNotFound
      | Returned (Some p) \<Rightarrow>
          (case Caretaker p of
             None \<Rightarrow> Inl PatientOrCaretakerNotFound
           | Some c \<Rightarrow> Inr \<lparr>patient = p, caretakerEmail = email c\<rparr>))"

text \<open>
  \<^verbatim>\<open>sendEmailToCaretaker\<close>, called for the intake at position \<open>i\<close>: the mail is
  handed to the transport (an attempt, recorded in the outbox), which accepts it or
  rejects it; the rejection is logged and thrown again.
\<close>

definition sendEmailToCaretaker :: "env \<Rightarrow> nat \<Rightarrow> string \<Rightarrow> world \<Rightarrow> error option \<times> world" where
  "sendEmailToCaretaker e i address w =
     (let w1 = w\<lparr>outbox := outbox w @ [(i, address)]\<rparr>
      in if mail_accepted e i then (None, w1) else (Some MailError, w1))"

subsection \<open>Session Recorder\<close>

text \<open>The values \<^verbatim>\<open>post_session\<close> passes to \<^verbatim>\<open>SessionIntake.create\<close>.\<close>

definition intake_values :: "nat \<Rightarrow> session_intake \<Rightarrow> session_intake_row" where
  "intake_values sid intake =
     \<lparr>session_intake.medication_id = session_intake.medication_id intake,
      session_intake.start_time = session_intake.start_time intake,
      ingest_time = ingest_time intake,
      session_intake.end_time = session_intake.end_time intake,
      ingested = ingested intake, session_id = sid\<rparr>"

text \<open>
  The loop of \<^verbatim>\<open>post_session\<close> from position \<open>i\<close> on. Every
  \<^verbatim>\<open>SessionIntake.create\<close> passes the transaction.
\<close>

fun intake_loop ::
  "env \<Rightarrow> jsval \<Rightarrow> nat \<Rightarrow> nat \<Rightarrow> session_intake list \<Rightarrow> world \<Rightarrow> error option \<times> world" where
  "intake_loop e pid sid i [] w = (None, w)"
| "intake_loop e pid sid i (intake # rest) w =
     (case create (intake_accepted e i) (SessionIntakeRow (intake_values sid intake))
             Transaction w of
        Inl err \<Rightarrow> (Some err, w)
      | Inr w1 \<Rightarrow>
          if \<not> truthy (ingested intake) then
            (case getCaretakerEmail e pid of
               Inl err \<Rightarrow> (Some err, w1)
             | Inr found \<Rightarrow>
                 (case sendEmailToCaretaker e i (caretakerEmail found) w1 of
                    (Some err, w2) \<Rightarrow> (Some err, w2)
                  | (None, w2) \<Rightarrow> intake_loop e pid sid (Suc i) rest w2))
          else intake_loop e pid sid (Suc i) rest w1)"

text \<open>
  The row \<^verbatim>\<open>Session.create(req.body, ...)\<close> makes: the columns of the body, and the
  id the store gives the row.
\<close>

definition session_values :: "nat \<Rightarrow> session_body \<Rightarrow> session_row" where
  "session_values sid b =
     \<lparr>cabinet_id = cabinet_id b, ids.patient_id = ids.patient_id b, pk = sid\<rparr>"

definition post_session :: "env \<Rightarrow> session_body \<Rightarrow> world \<Rightarrow> handled" where
  "post_session e b w0 =
     (let cid = cabinet_id b; pid = ids.patient_id b; w = transaction w0 in
      if pid = JUndefined \<or> cid = JUndefined then bad_request ErrorConstructor w
      else case create (session_accepted e) (SessionRow (session_values (new_session_id e) b))
                  Transaction w of
        Inl err \<Rightarrow> bad_request err w
      | Inr w1 \<Rightarrow>
          (case session_intakes b of
             None \<Rightarrow> bad_request TypeError w1
           | Some intakes \<Rightarrow>
               (case intake_loop e pid (new_session_id e) 0 intakes w1 of
                  (Some err, w2) \<Rightarrow> bad_request err w2
                | (None, w2) \<Rightarrow> received ''Session received successfully.'' w2)))"

subsection \<open>Reporting Aggregator: the medications of a patient\<close>

text \<open>
  What \<^verbatim>\<open>Patient.findByPk\<close> returns with the nested include: the patient with
  its Cabinet (or null), the CabinetBoxes of the cabinet, each with its Medication (or
  null) and the NDC rows of that medication. The query is the parameter \<open>findByPk\<close>.
\<close>

record medication_inst = medication +
  NDCs :: "ndc list"

record cabinet_box =
  box :: jsval
  quantity :: jsval
  Medication :: "medication_inst option"

record cabinet =
  CabinetBoxes :: "cabinet_box list"

record patient_inst =
  Cabinet :: "cabinet option"

record medication_out =
  NDC :: "ndc list"
  brand_name :: string
  generic_name :: string
  box :: jsval
  quantity :: jsval

text \<open>The object the \<^verbatim>\<open>reduce\<close> callback pushes for a box with a medication.\<close>

definition pushed :: "cabinet_box \<Rightarrow> medication_inst \<Rightarrow> medication_out" where
  "pushed cabinetBox m =
     \<lparr>NDC = NDCs m,
      medication_out.brand_name = medication.brand_name m,
      medication_out.generic_name = medication.generic_name m,
      medication_out.box = cabinet_box.box cabinetBox,
      medication_out.quantity = cabinet_box.quantity cabinetBox\<rparr>"

definition getPatientMedications ::
  "(jsval \<Rightarrow> patient_inst option answer) \<Rightarrow> jsval \<Rightarrow> error + medication_out list" where
  "getPatientMedications findByPk patientId =
     (case findByPk patientId of
        Rejected \<Rightarrow> Inl StoreError
      | Returned None \<Rightarrow> Inr []
      | Returned (Some p) \<Rightarrow>
          (case Cabinet p of
             None \<Rightarrow> Inr []
           | Some cab \<Rightarrow>
               Inr (foldl (\<lambda>acc cabinetBox.
                      case Medication cabinetBox of
                        Some m \<Rightarrow> acc @ [pushed cabinetBox m]
                      | None \<Rightarrow> acc)
                    [] (CabinetBoxes cab))))"

subsection \<open>Reporting Aggregator: ingestion times\<close>

text \<open>
  \<^verbatim>\<open>new Date(v)\<close>, as its time value: a Date is copied, a string is parsed
  (\<^verbatim>\<open>Date.parse\<close> is the parameter \<open>parse\<close>, \<open>None\<close> when it gives NaN), any
  other value is taken as a number of milliseconds. \<open>None\<close> is the invalid date.
\<close>

definition TimeClip :: "int \<Rightarrow> int option" where
  "TimeClip t = (if 8640000000000000 < \<bar>t\<bar> then None else Some t)"

fun new_Date :: "(string \<Rightarrow> int option) \<Rightarrow> jsval \<Rightarrow> int option" where
  "new_Date parse (JDate t) = t"
| "new_Date parse (JStr s) = (case parse s of None \<Rightarrow> None | Some t \<Rightarrow> TimeClip t)"
| "new_Date parse (JNum n) = TimeClip n"
| "new_Date parse JNaN = None"
| "new_Date parse JUndefined = None"
| "new_Date parse JNull = TimeClip 0"
| "new_Date parse (JBool b) = TimeClip (if b then 1 else 0)"

text \<open>
  \<^verbatim>\<open>(endTime - startTime) / 60\<close>: the difference of two Dates is the difference of
  their time values, a number of milliseconds; a number is a rational here, and
  \<open>None\<close> is NaN. The doubles of the program round a quotient or a mean that has no
  exact binary representation; the values computed in the properties below are integers
  well inside the exact range, the same in both.
\<close>

definition elapsed :: "int option \<Rightarrow> int option \<Rightarrow> rat option" where
  "elapsed endTime startTime =
     (case (endTime, startTime) of
        (Some t1, Some t0) \<Rightarrow> Some (of_int (t1 - t0) / 60)
      | _ \<Rightarrow> None)"

text \<open>A SessionIntake as \<^verbatim>\<open>findAll\<close> returns it, with its Medication included.\<close>

record intake_inst =
  medication_id :: string
  start_time :: jsval
  end_time :: jsval
  Medication :: medication

record ingestion_time =
  medication_id :: string
  brand_name :: string
  generic_name :: string
  ingestionTime :: "rat option"

record average_time =
  brand_name :: string
  generic_name :: string
  average_ingestion_time :: "rat option"

text \<open>
  \<^verbatim>\<open>_.groupBy\<close> builds an object, modelled as the list of its properties in the
  order they were added: an element joins the group of its key, or starts a new one.
\<close>

fun group_push :: "string \<Rightarrow> 'a \<Rightarrow> (string \<times> 'a list) list \<Rightarrow> (string \<times> 'a list) list" where
  "group_push k v [] = [(k, [v])]"
| "group_push k v ((k', vs) # r) =
     (if k' = k then (k', vs @ [v]) # r else (k', vs) # group_push k v r)"

definition groupBy :: "('a \<Rightarrow> string) \<Rightarrow> 'a list \<Rightarrow> (string \<times> 'a list) list" where
  "groupBy iteratee collection = foldl (\<lambda>acc v. group_push (iteratee v) v acc) [] collection"

text \<open>
  The order in which \<^verbatim>\<open>Object.keys\<close> lists the properties: the array indices
  (canonical decimal numerals below \<open>2^32 - 1\<close>) in ascending order, then the other
  keys in the order they were added. \<open>own_properties\<close> lists the properties with
  their values in that order, which is what reading \<^verbatim>\<open>obj[key]\<close> for every key of
  \<^verbatim>\<open>Object.keys(obj)\<close> gives.
\<close>

definition is_digit :: "char \<Rightarrow> bool" where
  "is_digit c = (48 \<le> (of_char c :: nat) \<and> (of_char c :: nat) \<le> 57)"

definition digits_value :: "string \<Rightarrow> nat" where
  "digits_value s = foldl (\<lambda>n c. 10 * n + (of_char c - 48)) 0 s"

definition array_index :: "string \<Rightarrow> bool" where
  "array_index s =
     (s \<noteq> [] \<and> list_all is_digit s \<and> (length s = 1 \<or> hd s \<noteq> CHR ''0'')
        \<and> digits_value s < 4294967295)"

definition own_properties :: "(string \<times> 'v) list \<Rightarrow> (string \<times> 'v) list" where
  "own_properties obj =
     sort_key (\<lambda>p. digits_value (fst p)) (filter (\<lambda>p. array_index (fst p)) obj)
       @ filter (\<lambda>p. \<not> array_index (fst p)) obj"

text \<open>
  \<^verbatim>\<open>_.meanBy\<close>: the sum of the values over the length, NaN for the empty array and
  whenever a value is NaN.
\<close>

definition meanBy :: "('a \<Rightarrow> rat option) \<Rightarrow> 'a list \<Rightarrow> rat option" where
  "meanBy iteratee array =
     (if array = [] then None
      else case those (map iteratee array) of
        None \<Rightarrow> None
      | Some vs \<Rightarrow> Some (sum_list vs / of_nat (length array)))"

text \<open>The callbacks of the two \<^verbatim>\<open>map\<close> calls of \<^verbatim>\<open>getIngestionTime\<close>.\<close>

definition ingestion_of :: "(string \<Rightarrow> int option) \<Rightarrow> intake_inst \<Rightarrow> ingestion_time" where
  "ingestion_of parse intake =
     (let startTime = new_Date parse (intake_inst.start_time intake);
          endTime = new_Date parse (intake_inst.end_time intake);
          t = elapsed endTime startTime
      in \<lparr>ingestion_time.medication_id = intake_inst.medication_id intake,
          ingestion_time.brand_name = medication.brand_name (intake_inst.Medication intake),
          ingestion_time.generic_name = medication.generic_name (intake_inst.Medication intake),
          ingestionTime = t\<rparr>)"

definition average_of :: "ingestion_time list \<Rightarrow> error + average_time" where
  "average_of g =
     (let avgIngestionTime = meanBy ingestionTime g in
      case g of
        [] \<Rightarrow> Inl TypeError
      | first # _ \<Rightarrow>
          Inr \<lparr>average_time.brand_name = ingestion_time.brand_name first,
               average_time.generic_name = ingestion_time.generic_name first,
               average_ingestion_time = avgIngestionTime\<rparr>)"

text \<open>An exception in a callback of \<^verbatim>\<open>map\<close> ends the whole call.\<close>

fun collect :: "(error + 'a) list \<Rightarrow> error + 'a list" where
  "collect [] = Inr []"
| "collect (Inl err # rs) = Inl err"
| "collect (Inr v # rs) = (case collect rs of Inl err \<Rightarrow> Inl err | Inr vs \<Rightarrow> Inr (v # vs))"

definition getIngestionTime ::
  "(jsval \<Rightarrow> intake_inst list answer) \<Rightarrow> (string \<Rightarrow> int option) \<Rightarrow> jsval
     \<Rightarrow> error + average_time list" where
  "getIngestionTime findAll parse ident =
     (case findAll ident of
        Rejected \<Rightarrow> Inl StoreError
      | Returned sessionIntakes \<Rightarrow>
          (let ingestionTimes = map (ingestion_of parse) sessionIntakes;
               groupedByMedicationId = groupBy ingestion_time.medication_id ingestionTimes
           in collect (map (\<lambda>p. average_of (snd p)) (own_properties groupedByMedicationId))))"

subsection \<open>Notions used to state the properties of the session loop\<close>

text \<open>
  The notification of the intake at position \<open>i\<close> goes through: the caretaker is
  found and the transport accepts the mail.
\<close>

definition notify_ok :: "env \<Rightarrow> jsval \<Rightarrow> nat \<Rightarrow> bool" where
  "notify_ok e pid i =
     (case getCaretakerEmail e pid of Inl err \<Rightarrow> False | Inr found \<Rightarrow> mail_accepted e i)"

text \<open>Every call made for the intake at position \<open>i\<close> succeeds.\<close>

definition step_ok :: "env \<Rightarrow> jsval \<Rightarrow> nat \<Rightarrow> session_intake \<Rightarrow> bool" where
  "step_ok e pid i intake =
     (intake_accepted e i \<and> (truthy (ingested intake) \<or> notify_ok e pid i))"

fun steps_ok :: "env \<Rightarrow> jsval \<Rightarrow> nat \<Rightarrow> session_intake list \<Rightarrow> bool" where
  "steps_ok e pid i [] = True"
| "steps_ok e pid i (intake # rest) = (step_ok e pid i intake \<and> steps_ok e pid (Suc i) rest)"

text \<open>
  One mail to \<open>address\<close> for every intake of the list whose \<open>ingested\<close> is falsy,
  labelled with the position of the intake; the list starts at position \<open>i\<close>.
\<close>

fun notifications :: "string \<Rightarrow> nat \<Rightarrow> session_intake list \<Rightarrow> (nat \<times> string) list" where
  "notifications address i [] = []"
| "notifications address i (intake # rest) =
     (if truthy (ingested intake) then [] else [(i, address)])
       @ notifications address (Suc i) rest"

subsection \<open>Example inputs\<close>

definition aspirin :: medication_inst where
  "aspirin =
     \<lparr>med_id = ''m-1'', medication.brand_name = ''Aspirin'',
      medication.generic_name = ''acetylsalicylic acid'', product_ndc = [''0001-01''],
      NDCs = [\<lparr>code = ''0001-01'', ndc.medication_id = ''m-1''\<rparr>]\<rparr>"

definition example_cabinet :: cabinet where
  "example_cabinet =
     \<lparr>CabinetBoxes =
        [\<lparr>cabinet_box.box = JNum 1, cabinet_box.quantity = JNum 30,
          cabinet_box.Medication = Some aspirin\<rparr>,
         \<lparr>cabinet_box.box = JNum 2, cabinet_box.quantity = JNum 0,
          cabinet_box.Medication = None\<rparr>]\<rparr>"

definition aspirin_summary :: medication where
  "aspirin_summary =
     \<lparr>med_id = ''m-1'', medication.brand_name = ''Aspirin'',
      medication.generic_name = ''acetylsalicylic acid'',
      product_ndc = [''0001-01'', ''0001-02'']\<rparr>"





definition carer :: patient where
  "carer = \<lparr>Caretaker = Some \<lparr>email = ''carer@example.org''\<rparr>\<rparr>"

definition all_well :: env where
  "all_well =
     \<lparr>session_accepted = True, new_session_id = 11, intake_accepted = (\<lambda>i. True),
      schedule_accepted = (\<lambda>i. True), Patient_findOne = (\<lambda>p. Returned (Some carer)),
      mail_accepted = (\<lambda>i. True)\<rparr>"

definition mail_down_at :: "nat \<Rightarrow> env" where
  "mail_down_at n = all_well\<lparr>mail_accepted := (\<lambda>i. i \<noteq> n)\<rparr>"


definition schedule_rejected_at :: "nat \<Rightarrow> env" where
  "schedule_rejected_at n = all_well\<lparr>schedule_accepted := (\<lambda>i. i \<noteq> n)\<rparr>"

definition dose :: "jsval \<Rightarrow> session_intake" where
  "dose v =
     \<lparr>session_intake.medication_id = JStr ''m-1'', session_intake.start_time = JNum 0,
      ingest_time = JNum 60, session_intake.end_time = JNum 300, ingested = v\<rparr>"

definition session_of :: "jsval \<Rightarrow> jsval \<Rightarrow> session_intake list \<Rightarrow> session_body" where
  "session_of c p intakes =
     \<lparr>cabinet_id = c, ids.patient_id = p, session_intakes = Some intakes\<rparr>"

definition idle :: world where
  "idle = \<lparr>committed = [], pending = [], outbox = []\<rparr>"

definition planned :: "jsval \<Rightarrow> schedule_item" where
  "planned d = \<lparr>schedule_item.medication_id = JStr ''m-1'', day = d, time = JStr ''08:00''\<rparr>"

definition schedule_of :: "jsval \<Rightarrow> jsval \<Rightarrow> schedule_item list \<Rightarrow> schedule_body" where
  "schedule_of c p items = \<lparr>cabinet_id = c, ids.patient_id = p, medications = Some items\<rparr>"

definition taken_in :: "jsval \<Rightarrow> jsval \<Rightarrow> intake_inst" where
  "taken_in t0 t1 =
     \<lparr>intake_inst.medication_id = ''m-1'', intake_inst.start_time = t0,
      intake_inst.end_time = t1, intake_inst.Medication = aspirin_summary\<rparr>"

section \<open>Properties\<close>

subsection \<open>The medications of a patient\<close>

lemma reduce_pushed:
  "foldl (\<lambda>acc b. case f b of Some m \<Rightarrow> acc @ [g b m] | None \<Rightarrow> acc) acc bs
   = acc @ concat (map (\<lambda>b. case f b of Some m \<Rightarrow> [g b m] | None \<Rightarrow> []) bs)"
  by (induction bs arbitrary: acc) (auto split: option.splits)

lemma length_concat_options:
  "length (concat (map (\<lambda>b. case f b of Some m \<Rightarrow> [g b m] | None \<Rightarrow> []) bs))
   = length (filter (\<lambda>b. f b \<noteq> None) bs)"
  by (induction bs) (auto split: option.splits)

text \<open>
  C8. For every patient id, \<open>getPatientMedications\<close> returns the empty sequence, and no
  error, when the patient does not exist or has no Cabinet; otherwise it returns, in the
  order of the cabinet's boxes, exactly one row for every CabinetBox that has a
  Medication (the NDC rows and the two names of the medication, the box and the
  quantity of the CabinetBox) and nothing for a box without one, so that there are as
  many rows as boxes with a medication.
\<close>

theorem getPatientMedications_one_row_per_resolved_box:
  "(findByPk patientId = Returned None
      \<longrightarrow> getPatientMedications findByPk patientId = Inr [])
   \<and> (\<forall>p. findByPk patientId = Returned (Some p) \<and> Cabinet p = None
      \<longrightarrow> getPatientMedications findByPk patientId = Inr [])
   \<and> (\<forall>p cab. findByPk patientId = Returned (Some p) \<and> Cabinet p = Some cab
      \<longrightarrow> (\<exists>rows. getPatientMedications findByPk patientId = Inr rows
            \<and> rows = concat (map (\<lambda>b. case cabinet_box.Medication b of
                                         Some m \<Rightarrow> [pushed b m] | None \<Rightarrow> [])
                                (CabinetBoxes cab))
            \<and> length rows
                = length (filter (\<lambda>b. cabinet_box.Medication b \<noteq> None) (CabinetBoxes cab))))"
  by (simp add: getPatientMedications_def reduce_pushed length_concat_options)

theorem getPatientMedications_witness:
  "getPatientMedications (\<lambda>i. Returned None) (JNum 7) = Inr []
   \<and> getPatientMedications (\<lambda>i. Returned (Some \<lparr>Cabinet = None\<rparr>)) (JNum 7) = Inr []
   \<and> getPatientMedications (\<lambda>i. Returned (Some \<lparr>Cabinet = Some example_cabinet\<rparr>)) (JNum 7)
       = Inr [\<lparr>NDC = [\<lparr>code = ''0001-01'', ndc.medication_id = ''m-1''\<rparr>],
               medication_out.brand_name = ''Aspirin'',
               medication_out.generic_name = ''acetylsalicylic acid'',
               medication_out.box = JNum 1, medication_out.quantity = JNum 30\<rparr>]"
proof -
  have a: "getPatientMedications (\<lambda>i. Returned None) (JNum 7) = Inr []"
    using getPatientMedications_one_row_per_resolved_box
            [of "\<lambda>i. Returned None" "JNum 7"]
    by simp
  have b: "getPatientMedications (\<lambda>i. Returned (Some \<lparr>Cabinet = None\<rparr>)) (JNum 7) = Inr []"
    using getPatientMedications_one_row_per_resolved_box
            [of "\<lambda>i. Returned (Some \<lparr>Cabinet = None\<rparr>)" "JNum 7"]
    by simp
  have c: "getPatientMedications (\<lambda>i. Returned (Some \<lparr>Cabinet = Some example_cabinet\<rparr>)) (JNum 7)
       = Inr [\<lparr>NDC = [\<lparr>code = ''0001-01'', ndc.medication_id = ''m-1''\<rparr>],
               medication_out.brand_name = ''Aspirin'',
               medication_out.generic_name = ''acetylsalicylic acid'',
               medication_out.box = JNum 1, medication_out.quantity = JNum 30\<rparr>]"
    using getPatientMedications_one_row_per_resolved_box
            [of "\<lambda>i. Returned (Some \<lparr>Cabinet = Some example_cabinet\<rparr>)" "JNum 7"]
    by (simp add: example_cabinet_def aspirin_def pushed_def)
  from a b c show ?thesis by simp
qed

subsection \<open>The medication search\<close>

text \<open>
  C7. \<open>search_medications\<close> issues one lookup: an OR-match of the query text over the
  brand name, the generic name and the product code, with the result limit 10. When the
  upstream answers without results (or with an empty result list) the response is the
  empty sequence with status 200; when the upstream call fails it is the empty sequence
  with status 404; results are answered mapped, with status 200.
\<close>

theorem search_medications_lookup_and_statuses:
  "fst (search_medications base get summary searchQuery)
     = [base @ ''?search=(openfda.brand_name:'' @ dquote @ searchQuery @ dquote
          @ '' OR openfda.generic_name:'' @ dquote @ searchQuery @ dquote
          @ ''OR openfda.product_ndc:'' @ dquote @ searchQuery @ dquote @ '')&limit=10'']
   \<and> (get (search_url base searchQuery) = Returned None
        \<longrightarrow> snd (search_medications base get summary searchQuery) = \<lparr>status = 200, body = []\<rparr>)
   \<and> (get (search_url base searchQuery) = Returned (Some [])
        \<longrightarrow> snd (search_medications base get summary searchQuery) = \<lparr>status = 200, body = []\<rparr>)
   \<and> (\<forall>rs. get (search_url base searchQuery) = Returned (Some rs)
        \<longrightarrow> snd (search_medications base get summary searchQuery)
              = \<lparr>status = 200, body = map summary rs\<rparr>)
   \<and> (get (search_url base searchQuery) = Rejected
        \<longrightarrow> snd (search_medications base get summary searchQuery) = \<lparr>status = 404, body = []\<rparr>)"
  by (simp add: search_medications_def search_url_def mapMedicationData_def Let_def)

theorem search_medications_witness:
  "search_medications ''fda'' (\<lambda>u. Returned None) (\<lambda>r. r) ''aspirin''
     = ([''fda?search=(openfda.brand_name:'' @ dquote @ ''aspirin'' @ dquote
          @ '' OR openfda.generic_name:'' @ dquote @ ''aspirin'' @ dquote
          @ ''OR openfda.product_ndc:'' @ dquote @ ''aspirin'' @ dquote @ '')&limit=10''],
        \<lparr>status = 200, body = []\<rparr>)
   \<and> snd (search_medications ''fda'' (\<lambda>u. Rejected) (\<lambda>r. r :: medication) ''aspirin'')
       = \<lparr>status = 404, body = []\<rparr>
   \<and> snd (search_medications ''fda'' (\<lambda>u. Returned (Some [aspirin_summary])) (\<lambda>r. r) ''aspirin'')
       = \<lparr>status = 200, body = [aspirin_summary]\<rparr>"
proof -
  have a: "search_medications ''fda'' (\<lambda>u. Returned None) (\<lambda>r. r) ''aspirin''
     = ([''fda?search=(openfda.brand_name:'' @ dquote @ ''aspirin'' @ dquote
          @ '' OR openfda.generic_name:'' @ dquote @ ''aspirin'' @ dquote
          @ ''OR openfda.product_ndc:'' @ dquote @ ''aspirin'' @ dquote @ '')&limit=10''],
        \<lparr>status = 200, body = []\<rparr>)"
    using search_medications_lookup_and_statuses
            [of "''fda''" "\<lambda>u. Returned None" "\<lambda>r. r" "''aspirin''"]
    by (simp add: prod_eq_iff)
  have b: "snd (search_medications ''fda'' (\<lambda>u. Rejected) (\<lambda>r. r :: medication) ''aspirin'')
       = \<lparr>status = 404, body = []\<rparr>"
    using search_medications_lookup_and_statuses
            [of "''fda''" "\<lambda>u. Rejected" "\<lambda>r. r :: medication" "''aspirin''"]
    by simp
  have c: "snd (search_medications ''fda'' (\<lambda>u. Returned (Some [aspirin_summary])) (\<lambda>r. r) ''aspirin'')
       = \<lparr>status = 200, body = [aspirin_summary]\<rparr>"
    using search_medications_lookup_and_statuses
            [of "''fda''" "\<lambda>u. Returned (Some [aspirin_summary])" "\<lambda>r. r" "''aspirin''"]
    by simp
  from a b c show ?thesis by simp
qed

subsection \<open>The medication catalog\<close>














lemma code_mk [simp]: "code \<lparr>code = c, ndc.medication_id = i\<rparr> = c"
  by simp












subsection \<open>The session loop and its handler\<close>

lemma intake_loop_committed:
  "committed (snd (intake_loop e pid sid i its w)) = committed w"
  by (induction its arbitrary: i w)
     (auto simp: create_def sendEmailToCaretaker_def Let_def split: sum.splits option.splits prod.splits if_splits)

lemma intake_loop_ok_iff:
  "fst (intake_loop e pid sid i its w) = None \<longleftrightarrow> steps_ok e pid i its"
  by (induction its arbitrary: i w)
     (auto simp: create_def sendEmailToCaretaker_def step_ok_def notify_ok_def Let_def
           split: sum.splits option.splits prod.splits if_splits)

lemma intake_loop_error:
  "fst (intake_loop e pid sid i its w) \<noteq> Some ErrorConstructor
   \<and> fst (intake_loop e pid sid i its w) \<noteq> Some TypeError"
  by (induction its arbitrary: i w)
     (auto simp: create_def sendEmailToCaretaker_def getCaretakerEmail_def Let_def
           split: sum.splits option.splits prod.splits if_splits answer.splits)

lemma intake_loop_pending:
  "steps_ok e pid i its \<Longrightarrow>
   pending (snd (intake_loop e pid sid i its w))
     = pending w @ map (\<lambda>x. SessionIntakeRow (intake_values sid x)) its"
  by (induction its arbitrary: i w)
     (auto simp: create_def sendEmailToCaretaker_def step_ok_def notify_ok_def Let_def
           split: sum.splits option.splits prod.splits if_splits)

lemma intake_loop_outbox_ok:
  "steps_ok e pid i its \<Longrightarrow> getCaretakerEmail e pid = Inr found \<Longrightarrow>
   outbox (snd (intake_loop e pid sid i its w))
     = outbox w @ notifications (caretakerEmail found) i its"
  by (induction its arbitrary: i w)
     (auto simp: create_def sendEmailToCaretaker_def step_ok_def notify_ok_def Let_def
           split: sum.splits option.splits prod.splits if_splits)

lemma intake_loop_outbox_prefix:
  "getCaretakerEmail e pid = Inr found \<Longrightarrow>
   \<exists>k\<le>length its. outbox (snd (intake_loop e pid sid i its w))
     = outbox w @ notifications (caretakerEmail found) i (take k its)"
proof (induction its arbitrary: i w)
  case Nil
  then show ?case by simp
next
  case (Cons x xs)
  show ?case
  proof (cases "intake_accepted e i")
    case False
    then have "outbox (snd (intake_loop e pid sid i (x # xs) w)) = outbox w"
      by (simp add: create_def)
    then show ?thesis by (intro exI [of _ 0]) simp
  next
    case acc: True
    define w1 where "w1 = w\<lparr>pending := pending w @ [SessionIntakeRow (intake_values sid x)]\<rparr>"
    show ?thesis
    proof (cases "truthy (ingested x)")
      case True
      from Cons.IH [OF Cons.prems, of "Suc i" w1] obtain k where
        k: "k \<le> length xs"
          "outbox (snd (intake_loop e pid sid (Suc i) xs w1))
             = outbox w1 @ notifications (caretakerEmail found) (Suc i) (take k xs)"
        by blast
      with acc True show ?thesis
        by (intro exI [of _ "Suc k"]) (simp add: create_def w1_def)
    next
      case falsy: False
      show ?thesis
      proof (cases "mail_accepted e i")
        case False
        with acc falsy Cons.prems show ?thesis
          by (intro exI [of _ "Suc 0"]) (simp add: create_def sendEmailToCaretaker_def Let_def)
      next
        case True
        define w2 where "w2 = w1\<lparr>outbox := outbox w1 @ [(i, caretakerEmail found)]\<rparr>"
        from Cons.IH [OF Cons.prems, of "Suc i" w2] obtain k where
          k: "k \<le> length xs"
            "outbox (snd (intake_loop e pid sid (Suc i) xs w2))
               = outbox w2 @ notifications (caretakerEmail found) (Suc i) (take k xs)"
          by blast
        with acc falsy True Cons.prems show ?thesis
          by (intro exI [of _ "Suc k"])
             (simp add: create_def sendEmailToCaretaker_def Let_def w1_def w2_def)
      qed
    qed
  qed
qed

lemma intake_loop_outbox_none:
  "getCaretakerEmail e pid = Inl err \<Longrightarrow>
   outbox (snd (intake_loop e pid sid i its w)) = outbox w"
  by (induction its arbitrary: i w)
     (auto simp: create_def split: sum.splits option.splits prod.splits if_splits)

lemma steps_ok_nth:
  "steps_ok e pid i its \<longleftrightarrow> (\<forall>k<length its. step_ok e pid (i + k) (its ! k))"
proof (induction its arbitrary: i)
  case Nil
  then show ?case by simp
next
  case (Cons x xs)
  show ?case
    by (simp add: Cons.IH All_less_Suc2 [of "length xs"])
qed


text \<open>The handler, by the outcome of its loop.\<close>

lemma post_session_undefined:
  "ids.patient_id b = JUndefined \<or> cabinet_id b = JUndefined \<Longrightarrow>
   post_session e b w = bad_request ErrorConstructor (transaction w)"
  by (auto simp: post_session_def Let_def)

lemma post_session_rejected:
  "ids.patient_id b \<noteq> JUndefined \<Longrightarrow> cabinet_id b \<noteq> JUndefined \<Longrightarrow> \<not> session_accepted e \<Longrightarrow>
   post_session e b w = bad_request StoreError (transaction w)"
  by (simp add: post_session_def Let_def create_def)

lemma post_session_not_iterable:
  "ids.patient_id b \<noteq> JUndefined \<Longrightarrow> cabinet_id b \<noteq> JUndefined \<Longrightarrow> session_accepted e \<Longrightarrow>
   session_intakes b = None \<Longrightarrow>
   post_session e b w
     = bad_request TypeError ((transaction w)\<lparr>pending := [SessionRow (session_values (new_session_id e) b)]\<rparr>)"
  by (simp add: post_session_def Let_def create_def transaction_def session_values_def)

lemma post_session_loop:
  "ids.patient_id b \<noteq> JUndefined \<Longrightarrow> cabinet_id b \<noteq> JUndefined \<Longrightarrow> session_accepted e \<Longrightarrow>
   session_intakes b = Some its \<Longrightarrow>
   post_session e b w =
     (case intake_loop e (ids.patient_id b) (new_session_id e) 0 its
             ((transaction w)\<lparr>pending := [SessionRow (session_values (new_session_id e) b)]\<rparr>) of
        (Some err, w2) \<Rightarrow> bad_request err w2
      | (None, w2) \<Rightarrow> received ''Session received successfully.'' w2)"
  by (simp add: post_session_def Let_def create_def transaction_def session_values_def)

lemma post_session_success:
  assumes "ids.patient_id b \<noteq> JUndefined" "cabinet_id b \<noteq> JUndefined" "session_accepted e"
    "session_intakes b = Some its" "\<forall>k<length its. step_ok e (ids.patient_id b) k (its ! k)"
  shows "reply (post_session e b w) = \<lparr>status = 200, body = ''Session received successfully.''\<rparr>"
    and "logged (post_session e b w) = None"
    and "committed (final (post_session e b w))
           = committed w @ SessionRow (session_values (new_session_id e) b)
               # map (\<lambda>x. SessionIntakeRow (intake_values (new_session_id e) x)) its"
    and "pending (final (post_session e b w)) = []"
proof -
  let ?w1 = "(transaction w)\<lparr>pending := [SessionRow (session_values (new_session_id e) b)]\<rparr>"
  let ?l = "intake_loop e (ids.patient_id b) (new_session_id e) 0 its ?w1"
  have ok: "steps_ok e (ids.patient_id b) 0 its"
    using assms(5) by (simp add: steps_ok_nth)
  then have f: "fst ?l = None" by (simp add: intake_loop_ok_iff)
  have p: "pending (snd ?l)
      = SessionRow (session_values (new_session_id e) b) # map (\<lambda>x. SessionIntakeRow (intake_values (new_session_id e) x)) its"
    using intake_loop_pending [OF ok, of "new_session_id e" ?w1] by simp
  have c: "committed (snd ?l) = committed w"
    by (simp add: intake_loop_committed transaction_def)
  have r: "post_session e b w = received ''Session received successfully.'' (snd ?l)"
    using f by (cases ?l) (simp add: post_session_loop [OF assms(1-4)])
  show "reply (post_session e b w) = \<lparr>status = 200, body = ''Session received successfully.''\<rparr>"
    and "logged (post_session e b w) = None"
    and "committed (final (post_session e b w))
           = committed w @ SessionRow (session_values (new_session_id e) b)
               # map (\<lambda>x. SessionIntakeRow (intake_values (new_session_id e) x)) its"
    and "pending (final (post_session e b w)) = []"
    by (simp_all add: r received_def commit_def p c)
qed

lemma post_session_failure:
  assumes "ids.patient_id b \<noteq> JUndefined" "cabinet_id b \<noteq> JUndefined"
    "session_intakes b = Some its"
    "\<not> (session_accepted e \<and> (\<forall>k<length its. step_ok e (ids.patient_id b) k (its ! k)))"
  shows "reply (post_session e b w) = \<lparr>status = 400, body = ''Bad Request''\<rparr>"
    and "committed (final (post_session e b w)) = committed w"
    and "pending (final (post_session e b w)) = []"
proof -
  let ?w1 = "(transaction w)\<lparr>pending := [SessionRow (session_values (new_session_id e) b)]\<rparr>"
  let ?l = "intake_loop e (ids.patient_id b) (new_session_id e) 0 its ?w1"
  have "\<exists>err w2. post_session e b w = bad_request err w2 \<and> committed w2 = committed w"
  proof (cases "session_accepted e")
    case False
    then have "post_session e b w = bad_request StoreError (transaction w)"
      by (rule post_session_rejected [OF assms(1,2)])
    moreover have "committed (transaction w) = committed w"
      by (simp add: transaction_def)
    ultimately show ?thesis by blast
  next
    case True
    with assms(4) have "\<not> steps_ok e (ids.patient_id b) 0 its"
      by (simp add: steps_ok_nth)
    then have "fst ?l \<noteq> None" by (simp add: intake_loop_ok_iff)
    then obtain err where "fst ?l = Some err" by blast
    then have "post_session e b w = bad_request err (snd ?l)"
      by (cases ?l) (simp add: post_session_loop [OF assms(1,2) True assms(3)])
    moreover have "committed (snd ?l) = committed w"
      by (simp add: intake_loop_committed transaction_def)
    ultimately show ?thesis by blast
  qed
  then obtain err w2 where "post_session e b w = bad_request err w2" "committed w2 = committed w"
    by blast
  then show "reply (post_session e b w) = \<lparr>status = 400, body = ''Bad Request''\<rparr>"
    and "committed (final (post_session e b w)) = committed w"
    and "pending (final (post_session e b w)) = []"
    by (simp_all add: bad_request_def rollback_def)
qed

lemma post_session_outbox_start:
  "outbox (final (bad_request err w)) = outbox w"
  "outbox (final (received msg w)) = outbox w"
  by (simp_all add: bad_request_def received_def rollback_def commit_def)

lemma post_session_status_200:
  assumes "ids.patient_id b \<noteq> JUndefined" "cabinet_id b \<noteq> JUndefined"
    "session_intakes b = Some its" "status (reply (post_session e b w)) = 200"
  shows "session_accepted e" and "steps_ok e (ids.patient_id b) 0 its"
proof -
  have "session_accepted e \<and> (\<forall>k<length its. step_ok e (ids.patient_id b) k (its ! k))"
  proof (rule ccontr)
    assume "\<not> (session_accepted e \<and> (\<forall>k<length its. step_ok e (ids.patient_id b) k (its ! k)))"
    from post_session_failure(1) [OF assms(1-3) this, of w] assms(4) show False by simp
  qed
  then show "session_accepted e" and "steps_ok e (ids.patient_id b) 0 its"
    by (simp_all add: steps_ok_nth)
qed

lemma post_session_outbox:
  assumes "ids.patient_id b \<noteq> JUndefined" "cabinet_id b \<noteq> JUndefined"
    "session_intakes b = Some its"
  shows "getCaretakerEmail e (ids.patient_id b) = Inl err \<Longrightarrow>
           outbox (final (post_session e b w)) = outbox w"
    and "getCaretakerEmail e (ids.patient_id b) = Inr found \<Longrightarrow>
           \<exists>j\<le>length its. outbox (final (post_session e b w))
               = outbox w @ notifications (caretakerEmail found) 0 (take j its)
             \<and> (status (reply (post_session e b w)) = 200 \<longrightarrow> j = length its)"
proof -
  let ?w1 = "(transaction w)\<lparr>pending := [SessionRow (session_values (new_session_id e) b)]\<rparr>"
  let ?l = "intake_loop e (ids.patient_id b) (new_session_id e) 0 its ?w1"
  have w1: "outbox ?w1 = outbox w" by (simp add: transaction_def)
  have out: "outbox (final (post_session e b w))
      = (if session_accepted e then outbox (snd ?l) else outbox w)"
  proof (cases "session_accepted e")
    case False
    then show ?thesis
      by (simp add: post_session_rejected [OF assms(1,2)] post_session_outbox_start transaction_def)
  next
    case True
    then show ?thesis
      by (cases ?l; cases "fst ?l")
         (simp_all add: post_session_loop [OF assms(1,2) True assms(3)] post_session_outbox_start)
  qed
  show "outbox (final (post_session e b w)) = outbox w"
    if "getCaretakerEmail e (ids.patient_id b) = Inl err"
    using that by (simp add: out intake_loop_outbox_none w1)
  show "\<exists>j\<le>length its. outbox (final (post_session e b w))
               = outbox w @ notifications (caretakerEmail found) 0 (take j its)
             \<and> (status (reply (post_session e b w)) = 200 \<longrightarrow> j = length its)"
    if f: "getCaretakerEmail e (ids.patient_id b) = Inr found"
  proof (cases "status (reply (post_session e b w)) = 200")
    case True
    from post_session_status_200 [OF assms True]
    have acc: "session_accepted e" and ok: "steps_ok e (ids.patient_id b) 0 its" .
    have "outbox (final (post_session e b w))
        = outbox w @ notifications (caretakerEmail found) 0 its"
      using acc intake_loop_outbox_ok [OF ok f, of "new_session_id e" ?w1] by (simp add: out w1)
    then show ?thesis by (intro exI [of _ "length its"]) simp
  next
    case False
    show ?thesis
    proof (cases "session_accepted e")
      case True
      from intake_loop_outbox_prefix [OF f, of its "new_session_id e" 0 ?w1] obtain j where
        "j \<le> length its" "outbox (snd ?l) = outbox ?w1 @ notifications (caretakerEmail found) 0 (take j its)"
        by blast
      with True False show ?thesis by (intro exI [of _ j]) (simp add: out w1)
    next
      case no: False
      with False show ?thesis by (intro exI [of _ 0]) (simp add: out)
    qed
  qed
qed

lemma intake_loop_outbox_at:
  assumes f: "getCaretakerEmail e pid = Inr found"
  shows "filter (\<lambda>n. fst n = k) (outbox (snd (intake_loop e pid sid i its w)))
     = filter (\<lambda>n. fst n = k) (outbox w)
       @ (if i \<le> k \<and> k < i + length its \<and> steps_ok e pid i (take (k - i) its)
             \<and> intake_accepted e k \<and> \<not> truthy (ingested (its ! (k - i)))
          then [(k, caretakerEmail found)] else [])"
proof (induction its arbitrary: i w)
  case Nil
  then show ?case by simp
next
  case (Cons x xs)
  have n: "notify_ok e pid i = mail_accepted e i"
    by (simp add: notify_ok_def f)
  show ?case
  proof (cases "k = i")
    case True
    have ih: "filter (\<lambda>n. fst n = i) (outbox (snd (intake_loop e pid sid (Suc i) xs w')))
        = filter (\<lambda>n. fst n = i) (outbox w')" for w'
      using Cons.IH [of "Suc i" w'] True by simp
    show ?thesis
      unfolding True
      by (simp add: ih create_def sendEmailToCaretaker_def f Let_def)
  next
    case False
    show ?thesis
    proof (cases "i < k")
      case True
      then obtain d where d: "k - i = Suc d" "k - Suc i = d"
        by (metis Suc_diff_Suc)
      from True have le: "Suc i \<le> k" "i \<le> k" by simp_all
      from True have lt: "k < i + length (x # xs) \<longleftrightarrow> k < Suc i + length xs" by simp
      show ?thesis
        using True
        by (auto simp: Cons.IH create_def sendEmailToCaretaker_def f Let_def d step_ok_def n)
    next
      case no: False
      with False have "k < i" by simp
      then show ?thesis
        by (simp add: Cons.IH create_def sendEmailToCaretaker_def f Let_def)
    qed
  qed
qed


lemma post_session_outbox_loop:
  assumes "ids.patient_id b \<noteq> JUndefined" "cabinet_id b \<noteq> JUndefined"
    "session_intakes b = Some its"
  shows "outbox (final (post_session e b w))
      = (if session_accepted e
         then outbox (snd (intake_loop e (ids.patient_id b) (new_session_id e) 0 its
                 ((transaction w)\<lparr>pending := [SessionRow (session_values (new_session_id e) b)]\<rparr>)))
         else outbox w)"
proof (cases "session_accepted e")
  case False
  then show ?thesis
    by (simp add: post_session_rejected [OF assms(1,2)] post_session_outbox_start transaction_def)
next
  case True
  let ?l = "intake_loop e (ids.patient_id b) (new_session_id e) 0 its
              ((transaction w)\<lparr>pending := [SessionRow (session_values (new_session_id e) b)]\<rparr>)"
  from True show ?thesis
    by (cases ?l; cases "fst ?l")
       (simp_all add: post_session_loop [OF assms(1,2) True assms(3)] post_session_outbox_start)
qed

lemma steps_ok_take:
  "k < length its \<Longrightarrow>
   steps_ok e pid 0 (take k its) \<longleftrightarrow> (\<forall>i<k. step_ok e pid i (its ! i))"
  by (simp add: steps_ok_nth)

lemma post_session_outbox_at:
  assumes "ids.patient_id b \<noteq> JUndefined" "cabinet_id b \<noteq> JUndefined"
    "session_intakes b = Some its" "getCaretakerEmail e (ids.patient_id b) = Inr found"
  shows "filter (\<lambda>n. fst n = k) (outbox (final (post_session e b w)))
     = filter (\<lambda>n. fst n = k) (outbox w)
       @ (if session_accepted e \<and> k < length its
             \<and> (\<forall>i<k. step_ok e (ids.patient_id b) i (its ! i))
             \<and> intake_accepted e k \<and> \<not> truthy (ingested (its ! k))
          then [(k, caretakerEmail found)] else [])"
proof (cases "k < length its")
  case True
  then show ?thesis
    by (simp add: post_session_outbox_loop [OF assms(1-3)] intake_loop_outbox_at [OF assms(4)]
          transaction_def steps_ok_take)
next
  case False
  then show ?thesis
    by (simp add: post_session_outbox_loop [OF assms(1-3)] intake_loop_outbox_at [OF assms(4)]
          transaction_def)
qed

lemma getCaretakerEmail_found:
  "getCaretakerEmail e pid = Inr found \<Longrightarrow>
   \<exists>p c. Patient_findOne e pid = Returned (Some p) \<and> Caretaker p = Some c
     \<and> caretakerEmail found = email c"
  by (auto simp: getCaretakerEmail_def split: answer.splits option.splits)

lemma step_ok_falsy:
  "step_ok e pid k x \<Longrightarrow> \<not> truthy (ingested x) \<Longrightarrow> \<exists>found. getCaretakerEmail e pid = Inr found"
  by (auto simp: step_ok_def notify_ok_def split: sum.splits)

lemma step_ok_all_well: "step_ok all_well (JNum 7) k x"
  by (simp add: step_ok_def notify_ok_def getCaretakerEmail_def all_well_def carer_def)

lemma getCaretakerEmail_all_well:
  "getCaretakerEmail all_well p = Inr \<lparr>patient = carer, caretakerEmail = ''carer@example.org''\<rparr>"
  by (simp add: getCaretakerEmail_def all_well_def carer_def)

subsection \<open>Session Recorder: all or nothing\<close>

text \<open>
  C1. For every session request whose \<open>patient_id\<close> and \<open>cabinet_id\<close> are both present:
  if every call of the batch succeeds (the Session row write, and for every intake its
  SessionIntake row write and, when its \<open>ingested\<close> is falsy, the caretaker lookup and
  the mail), the response is 200 and the store durably holds the Session row and one
  SessionIntake row per intake; if any of these calls fails (or the intakes cannot be
  iterated), the response is 400 and the store holds exactly the rows it held before the
  call, so neither the Session row nor any SessionIntake row of the call is durable. No
  row of the call is left pending.
\<close>

theorem post_session_all_or_nothing:
  "ids.patient_id b \<noteq> JUndefined \<and> cabinet_id b \<noteq> JUndefined \<longrightarrow>
     (\<forall>its. session_intakes b = Some its \<longrightarrow>
        (if session_accepted e \<and> (\<forall>k<length its. step_ok e (ids.patient_id b) k (its ! k))
         then status (reply (post_session e b w)) = 200
              \<and> committed (final (post_session e b w))
                  = committed w @ SessionRow (session_values (new_session_id e) b)
                      # map (\<lambda>x. SessionIntakeRow (intake_values (new_session_id e) x)) its
         else status (reply (post_session e b w)) = 400
              \<and> committed (final (post_session e b w)) = committed w))
     \<and> (session_intakes b = None \<longrightarrow>
          status (reply (post_session e b w)) = 400
          \<and> committed (final (post_session e b w)) = committed w)
     \<and> pending (final (post_session e b w)) = []"
proof
  assume ids: "ids.patient_id b \<noteq> JUndefined \<and> cabinet_id b \<noteq> JUndefined"
  then have p: "ids.patient_id b \<noteq> JUndefined" and c: "cabinet_id b \<noteq> JUndefined"
    by simp_all
  have some: "(if session_accepted e \<and> (\<forall>k<length its. step_ok e (ids.patient_id b) k (its ! k))
         then status (reply (post_session e b w)) = 200
              \<and> committed (final (post_session e b w))
                  = committed w @ SessionRow (session_values (new_session_id e) b)
                      # map (\<lambda>x. SessionIntakeRow (intake_values (new_session_id e) x)) its
         else status (reply (post_session e b w)) = 400
              \<and> committed (final (post_session e b w)) = committed w)"
    if s: "session_intakes b = Some its" for its
  proof (cases "session_accepted e \<and> (\<forall>k<length its. step_ok e (ids.patient_id b) k (its ! k))")
    case True
    then show ?thesis
      using post_session_success(1,3) [OF p c _ s, of e w] by simp
  next
    case False
    then show ?thesis
      using post_session_failure(1,2) [OF p c s False, of w] by simp
  qed
  have none: "status (reply (post_session e b w)) = 400
          \<and> committed (final (post_session e b w)) = committed w"
    if s: "session_intakes b = None"
  proof (cases "session_accepted e")
    case True
    then show ?thesis
      by (simp add: post_session_not_iterable [OF p c True s] bad_request_def rollback_def
            transaction_def)
  next
    case False
    then show ?thesis
      by (simp add: post_session_rejected [OF p c False] bad_request_def rollback_def
            transaction_def)
  qed
  have pend: "pending (final (post_session e b w)) = []"
  proof (cases "session_intakes b")
    case None
    then show ?thesis
      by (cases "session_accepted e")
         (simp_all add: post_session_not_iterable [OF p c] post_session_rejected [OF p c]
            bad_request_def rollback_def)
  next
    case (Some its)
    then show ?thesis
      using post_session_success(4) [OF p c _ Some, of e w] post_session_failure(3) [OF p c Some, of e w]
      by blast
  qed
  from some none pend show "(\<forall>its. session_intakes b = Some its \<longrightarrow>
        (if session_accepted e \<and> (\<forall>k<length its. step_ok e (ids.patient_id b) k (its ! k))
         then status (reply (post_session e b w)) = 200
              \<and> committed (final (post_session e b w))
                  = committed w @ SessionRow (session_values (new_session_id e) b)
                      # map (\<lambda>x. SessionIntakeRow (intake_values (new_session_id e) x)) its
         else status (reply (post_session e b w)) = 400
              \<and> committed (final (post_session e b w)) = committed w))
     \<and> (session_intakes b = None \<longrightarrow>
          status (reply (post_session e b w)) = 400
          \<and> committed (final (post_session e b w)) = committed w)
     \<and> pending (final (post_session e b w)) = []"
    by blast
qed

theorem post_session_all_or_nothing_witness:
  "status (reply (post_session (mail_down_at 1)
       (session_of (JNum 3) (JNum 7) [dose (JBool False), dose (JBool False), dose (JBool True)])
       idle)) = 400
   \<and> committed (final (post_session (mail_down_at 1)
       (session_of (JNum 3) (JNum 7) [dose (JBool False), dose (JBool False), dose (JBool True)])
       idle)) = []
   \<and> status (reply (post_session all_well
       (session_of (JNum 3) (JNum 7) [dose (JBool False), dose (JBool True)]) idle)) = 200
   \<and> committed (final (post_session all_well
       (session_of (JNum 3) (JNum 7) [dose (JBool False), dose (JBool True)]) idle))
     = [SessionRow \<lparr>cabinet_id = JNum 3, ids.patient_id = JNum 7, pk = 11\<rparr>,
        SessionIntakeRow (intake_values 11 (dose (JBool False))),
        SessionIntakeRow (intake_values 11 (dose (JBool True)))]"
proof -
  let ?its = "[dose (JBool False), dose (JBool False), dose (JBool True)]"
  let ?b = "session_of (JNum 3) (JNum 7) ?its"
  have pre: "ids.patient_id ?b \<noteq> JUndefined \<and> cabinet_id ?b \<noteq> JUndefined"
    and s: "session_intakes ?b = Some ?its" and p: "ids.patient_id ?b = JNum 7"
    by (simp_all add: session_of_def)
  have "\<not> step_ok (mail_down_at 1) (JNum 7) 1 (?its ! 1)"
    by (simp add: step_ok_def notify_ok_def getCaretakerEmail_def mail_down_at_def all_well_def
          carer_def dose_def)
  moreover have "1 < length ?its" by simp
  ultimately have bad: "\<not> (session_accepted (mail_down_at 1)
      \<and> (\<forall>k<length ?its. step_ok (mail_down_at 1) (ids.patient_id ?b) k (?its ! k)))"
    unfolding p by blast
  from post_session_all_or_nothing [of ?b "mail_down_at 1" idle] pre s
  have "if session_accepted (mail_down_at 1)
          \<and> (\<forall>k<length ?its. step_ok (mail_down_at 1) (ids.patient_id ?b) k (?its ! k))
        then status (reply (post_session (mail_down_at 1) ?b idle)) = 200
             \<and> committed (final (post_session (mail_down_at 1) ?b idle))
                 = committed idle @ SessionRow (session_values (new_session_id (mail_down_at 1)) ?b)
                     # map (\<lambda>x. SessionIntakeRow (intake_values (new_session_id (mail_down_at 1)) x)) ?its
        else status (reply (post_session (mail_down_at 1) ?b idle)) = 400
             \<and> committed (final (post_session (mail_down_at 1) ?b idle)) = committed idle"
    by blast
  with bad have down: "status (reply (post_session (mail_down_at 1) ?b idle)) = 400
      \<and> committed (final (post_session (mail_down_at 1) ?b idle)) = committed idle"
    by (simp only: if_False)
  let ?its2 = "[dose (JBool False), dose (JBool True)]"
  let ?b2 = "session_of (JNum 3) (JNum 7) ?its2"
  have pre2: "ids.patient_id ?b2 \<noteq> JUndefined \<and> cabinet_id ?b2 \<noteq> JUndefined"
    and s2: "session_intakes ?b2 = Some ?its2" and p2: "ids.patient_id ?b2 = JNum 7"
    by (simp_all add: session_of_def)
  have good: "session_accepted all_well
      \<and> (\<forall>k<length ?its2. step_ok all_well (ids.patient_id ?b2) k (?its2 ! k))"
    unfolding p2 using step_ok_all_well by (simp add: all_well_def)
  from post_session_all_or_nothing [of ?b2 all_well idle] pre2 s2
  have "if session_accepted all_well
          \<and> (\<forall>k<length ?its2. step_ok all_well (ids.patient_id ?b2) k (?its2 ! k))
        then status (reply (post_session all_well ?b2 idle)) = 200
             \<and> committed (final (post_session all_well ?b2 idle))
                 = committed idle @ SessionRow (session_values (new_session_id all_well) ?b2)
                     # map (\<lambda>x. SessionIntakeRow (intake_values (new_session_id all_well) x)) ?its2
        else status (reply (post_session all_well ?b2 idle)) = 400
             \<and> committed (final (post_session all_well ?b2 idle)) = committed idle"
    by blast
  then have up: "status (reply (post_session all_well ?b2 idle)) = 200
             \<and> committed (final (post_session all_well ?b2 idle))
                 = committed idle @ SessionRow (session_values (new_session_id all_well) ?b2)
                     # map (\<lambda>x. SessionIntakeRow (intake_values (new_session_id all_well) x)) ?its2"
    unfolding if_P [OF good] .
  have v: "committed idle = []" "new_session_id all_well = 11"
    "session_values 11 ?b2 = \<lparr>cabinet_id = JNum 3, ids.patient_id = JNum 7, pk = 11\<rparr>"
    by (simp_all add: idle_def all_well_def session_values_def session_of_def)
  from down up show ?thesis by (simp add: v)
qed

subsection \<open>Session Recorder: notifications\<close>

lemma status_all_well:
  "status (reply (post_session all_well (session_of (JNum 3) (JNum 7) its) idle)) = 200"
proof -
  let ?b = "session_of (JNum 3) (JNum 7) its"
  have "ids.patient_id ?b \<noteq> JUndefined" "cabinet_id ?b \<noteq> JUndefined" "session_accepted all_well"
    "session_intakes ?b = Some its" "\<forall>k<length its. step_ok all_well (ids.patient_id ?b) k (its ! k)"
    by (simp_all add: session_of_def step_ok_all_well) (simp add: all_well_def)
  from post_session_success(1) [OF this, of idle] show ?thesis by simp
qed

text \<open>
  C4, as the code has it. The notifications a call attempts are the mails it hands to the
  transport after those that were there before. An intake is reached when the Session row
  and every call made for the intakes before it succeeded. In every call, for every intake
  that is reached, whose row is written and whose \<open>ingested\<close> is falsy (so also when it
  equals false), exactly one notification is attempted when the caretaker of the
  request's \<open>patient_id\<close> is found, addressed to that caretaker's email (what
  \<open>getCaretakerEmail\<close> returns is the email of the Caretaker of the patient found for
  that id); for every other intake none is attempted, so none for an intake whose
  \<open>ingested\<close> equals true and none after the first failing step. In a call that
  answers 200 every intake whose \<open>ingested\<close> equals false has its one notification.
  The notifications of a call are those of the falsy intakes of a leading part of the
  list, the whole list when the call answers 200.
\<close>

theorem post_session_notifications:
  "ids.patient_id b \<noteq> JUndefined \<and> cabinet_id b \<noteq> JUndefined \<and> session_intakes b = Some its \<longrightarrow>
     (\<exists>ns. outbox (final (post_session e b w)) = outbox w @ ns
        \<and> (\<forall>k. filter (\<lambda>n. fst n = k) ns
               = (if session_accepted e \<and> k < length its
                     \<and> (\<forall>i<k. step_ok e (ids.patient_id b) i (its ! i))
                     \<and> intake_accepted e k \<and> \<not> truthy (ingested (its ! k))
                  then (case getCaretakerEmail e (ids.patient_id b) of
                          Inr found \<Rightarrow> [(k, caretakerEmail found)]
                        | Inl err \<Rightarrow> [])
                  else []))
        \<and> (\<forall>k<length its. ingested (its ! k) = JBool False \<and> session_accepted e
               \<and> (\<forall>i<k. step_ok e (ids.patient_id b) i (its ! i)) \<and> intake_accepted e k \<longrightarrow>
             (\<forall>found. getCaretakerEmail e (ids.patient_id b) = Inr found \<longrightarrow>
                filter (\<lambda>n. fst n = k) ns = [(k, caretakerEmail found)]))
        \<and> (status (reply (post_session e b w)) = 200 \<longrightarrow>
             (\<forall>k<length its. ingested (its ! k) = JBool False \<longrightarrow>
                (\<exists>found. getCaretakerEmail e (ids.patient_id b) = Inr found
                   \<and> filter (\<lambda>n. fst n = k) ns = [(k, caretakerEmail found)])))
        \<and> (\<forall>k<length its. ingested (its ! k) = JBool True \<longrightarrow>
             filter (\<lambda>n. fst n = k) ns = [])
        \<and> (\<exists>j\<le>length its. (status (reply (post_session e b w)) = 200 \<longrightarrow> j = length its)
             \<and> (\<forall>found. getCaretakerEmail e (ids.patient_id b) = Inr found \<longrightarrow>
                  ns = notifications (caretakerEmail found) 0 (take j its))))
     \<and> (\<forall>found. getCaretakerEmail e (ids.patient_id b) = Inr found \<longrightarrow>
          (\<exists>p c. Patient_findOne e (ids.patient_id b) = Returned (Some p)
             \<and> Caretaker p = Some c \<and> caretakerEmail found = email c))"
proof
  assume a: "ids.patient_id b \<noteq> JUndefined \<and> cabinet_id b \<noteq> JUndefined \<and> session_intakes b = Some its"
  then have p: "ids.patient_id b \<noteq> JUndefined" and c: "cabinet_id b \<noteq> JUndefined"
    and s: "session_intakes b = Some its"
    by simp_all
  let ?pid = "ids.patient_id b"
  let ?r = "post_session e b w"
  let ?reached = "\<lambda>k. session_accepted e \<and> k < length its
                     \<and> (\<forall>i<k. step_ok e ?pid i (its ! i))
                     \<and> intake_accepted e k \<and> \<not> truthy (ingested (its ! k))"
  let ?mail = "\<lambda>k. case getCaretakerEmail e ?pid of
                          Inr found \<Rightarrow> [(k, caretakerEmail found)]
                        | Inl err \<Rightarrow> []"
  have ex: "\<exists>ns. outbox (final ?r) = outbox w @ ns
     \<and> (\<forall>k. filter (\<lambda>n. fst n = k) ns = (if ?reached k then ?mail k else []))
     \<and> (\<exists>j\<le>length its. (status (reply ?r) = 200 \<longrightarrow> j = length its)
             \<and> (\<forall>found. getCaretakerEmail e ?pid = Inr found \<longrightarrow>
                  ns = notifications (caretakerEmail found) 0 (take j its)))"
  proof (cases "getCaretakerEmail e ?pid")
    case (Inl err)
    have "outbox (final ?r) = outbox w @ []"
      using post_session_outbox(1) [OF p c s Inl, of w] by simp
    with Inl show ?thesis by (intro exI [of _ "[]"]) auto
  next
    case (Inr found)
    from post_session_outbox(2) [OF p c s Inr, of w] obtain j where
      j: "j \<le> length its"
        "outbox (final ?r) = outbox w @ notifications (caretakerEmail found) 0 (take j its)"
        "status (reply ?r) = 200 \<longrightarrow> j = length its"
      by blast
    let ?ns = "notifications (caretakerEmail found) 0 (take j its)"
    have "filter (\<lambda>n. fst n = k) ?ns = (if ?reached k then ?mail k else [])" for k
      using post_session_outbox_at [OF p c s Inr, of k w] by (simp add: j(2) Inr)
    with j Inr show ?thesis by (intro exI [of _ ?ns]) auto
  qed
  then obtain ns where ns: "outbox (final ?r) = outbox w @ ns"
    and at: "\<And>k. filter (\<lambda>n. fst n = k) ns = (if ?reached k then ?mail k else [])"
    and pre: "\<exists>j\<le>length its. (status (reply ?r) = 200 \<longrightarrow> j = length its)
             \<and> (\<forall>found. getCaretakerEmail e ?pid = Inr found \<longrightarrow>
                  ns = notifications (caretakerEmail found) 0 (take j its))"
    by blast
  have reached_false: "filter (\<lambda>n. fst n = k) ns = [(k, caretakerEmail found)]"
    if "k < length its" "ingested (its ! k) = JBool False" "session_accepted e"
      "\<forall>i<k. step_ok e ?pid i (its ! i)" "intake_accepted e k"
      "getCaretakerEmail e ?pid = Inr found" for k found
    using that by (simp add: at)
  have ok_false: "\<exists>found. getCaretakerEmail e ?pid = Inr found
                   \<and> filter (\<lambda>n. fst n = k) ns = [(k, caretakerEmail found)]"
    if st: "status (reply ?r) = 200" and k: "k < length its" "ingested (its ! k) = JBool False" for k
  proof -
    from post_session_status_200 [OF p c s st]
    have acc: "session_accepted e" and all: "\<forall>i<length its. step_ok e ?pid i (its ! i)"
      by (simp_all add: steps_ok_nth)
    from all k have sk: "step_ok e ?pid k (its ! k)" by simp
    then have ia: "intake_accepted e k" by (simp add: step_ok_def)
    from sk k(2) obtain found where f: "getCaretakerEmail e ?pid = Inr found"
      using step_ok_falsy [of e ?pid k "its ! k"] by auto
    from all k(1) have "\<forall>i<k. step_ok e ?pid i (its ! i)" by simp
    from reached_false [OF k acc this ia f] f show ?thesis by blast
  qed
  have true_none: "filter (\<lambda>n. fst n = k) ns = []"
    if "k < length its" "ingested (its ! k) = JBool True" for k
    using that by (simp add: at)
  from ns at reached_false ok_false true_none pre getCaretakerEmail_found [of e ?pid]
  show "(\<exists>ns. outbox (final (post_session e b w)) = outbox w @ ns
        \<and> (\<forall>k. filter (\<lambda>n. fst n = k) ns
               = (if session_accepted e \<and> k < length its
                     \<and> (\<forall>i<k. step_ok e (ids.patient_id b) i (its ! i))
                     \<and> intake_accepted e k \<and> \<not> truthy (ingested (its ! k))
                  then (case getCaretakerEmail e (ids.patient_id b) of
                          Inr found \<Rightarrow> [(k, caretakerEmail found)]
                        | Inl err \<Rightarrow> [])
                  else []))
        \<and> (\<forall>k<length its. ingested (its ! k) = JBool False \<and> session_accepted e
               \<and> (\<forall>i<k. step_ok e (ids.patient_id b) i (its ! i)) \<and> intake_accepted e k \<longrightarrow>
             (\<forall>found. getCaretakerEmail e (ids.patient_id b) = Inr found \<longrightarrow>
                filter (\<lambda>n. fst n = k) ns = [(k, caretakerEmail found)]))
        \<and> (status (reply (post_session e b w)) = 200 \<longrightarrow>
             (\<forall>k<length its. ingested (its ! k) = JBool False \<longrightarrow>
                (\<exists>found. getCaretakerEmail e (ids.patient_id b) = Inr found
                   \<and> filter (\<lambda>n. fst n = k) ns = [(k, caretakerEmail found)])))
        \<and> (\<forall>k<length its. ingested (its ! k) = JBool True \<longrightarrow>
             filter (\<lambda>n. fst n = k) ns = [])
        \<and> (\<exists>j\<le>length its. (status (reply (post_session e b w)) = 200 \<longrightarrow> j = length its)
             \<and> (\<forall>found. getCaretakerEmail e (ids.patient_id b) = Inr found \<longrightarrow>
                  ns = notifications (caretakerEmail found) 0 (take j its))))
     \<and> (\<forall>found. getCaretakerEmail e (ids.patient_id b) = Inr found \<longrightarrow>
          (\<exists>p c. Patient_findOne e (ids.patient_id b) = Returned (Some p)
             \<and> Caretaker p = Some c \<and> caretakerEmail found = email c))"
    by (intro conjI exI [of _ ns]) blast+
qed

theorem post_session_notifications_witness:
  "filter (\<lambda>n. fst n = 0) (outbox (final (post_session all_well
       (session_of (JNum 3) (JNum 7) [dose (JBool False), dose (JBool True)]) idle)))
     = [(0, ''carer@example.org'')]
   \<and> filter (\<lambda>n. fst n = 1) (outbox (final (post_session all_well
       (session_of (JNum 3) (JNum 7) [dose (JBool False), dose (JBool True)]) idle)))
     = []
   \<and> status (reply (post_session (mail_down_at 0)
       (session_of (JNum 3) (JNum 7) [dose (JBool False), dose (JBool False)]) idle)) = 400
   \<and> filter (\<lambda>n. fst n = 0) (outbox (final (post_session (mail_down_at 0)
       (session_of (JNum 3) (JNum 7) [dose (JBool False), dose (JBool False)]) idle)))
     = [(0, ''carer@example.org'')]
   \<and> filter (\<lambda>n. fst n = 1) (outbox (final (post_session (mail_down_at 0)
       (session_of (JNum 3) (JNum 7) [dose (JBool False), dose (JBool False)]) idle)))
     = []"
proof -
  let ?its = "[dose (JBool False), dose (JBool True)]"
  let ?b = "session_of (JNum 3) (JNum 7) ?its"
  let ?r = "post_session all_well ?b idle"
  have pre: "ids.patient_id ?b \<noteq> JUndefined \<and> cabinet_id ?b \<noteq> JUndefined
      \<and> session_intakes ?b = Some ?its"
    by (simp add: session_of_def)
  have i: "0 < length ?its \<and> ingested (?its ! 0) = JBool False"
    "1 < length ?its \<and> ingested (?its ! 1) = JBool True"
    by (simp_all add: dose_def)
  have o: "outbox idle = []" by (simp add: idle_def)
  have ok: "status (reply ?r) = 200" by (rule status_all_well)
  from post_session_notifications [of ?b ?its all_well idle] pre obtain ns where
    ns: "outbox (final ?r) = outbox idle @ ns"
      "status (reply ?r) = 200 \<longrightarrow>
         (\<forall>k<length ?its. ingested (?its ! k) = JBool False \<longrightarrow>
            (\<exists>found. getCaretakerEmail all_well (ids.patient_id ?b) = Inr found
               \<and> filter (\<lambda>n. fst n = k) ns = [(k, caretakerEmail found)]))"
      "\<forall>k<length ?its. ingested (?its ! k) = JBool True \<longrightarrow> filter (\<lambda>n. fst n = k) ns = []"
    by blast
  from ns(2) ok i(1)
  have "\<exists>found. getCaretakerEmail all_well (ids.patient_id ?b) = Inr found
               \<and> filter (\<lambda>n. fst n = 0) ns = [(0, caretakerEmail found)]"
    by blast
  then have a: "filter (\<lambda>n. fst n = 0) ns = [(0, ''carer@example.org'')]"
    unfolding getCaretakerEmail_all_well by auto
  from ns(3) i(2) have b: "filter (\<lambda>n. fst n = 1) ns = []"
    by blast
  have up: "filter (\<lambda>n. fst n = 0) (outbox (final ?r)) = [(0, ''carer@example.org'')]
      \<and> filter (\<lambda>n. fst n = 1) (outbox (final ?r)) = []"
    using a b unfolding ns(1) o by simp
  let ?e = "mail_down_at 0"
  let ?its2 = "[dose (JBool False), dose (JBool False)]"
  let ?b2 = "session_of (JNum 3) (JNum 7) ?its2"
  let ?r2 = "post_session ?e ?b2 idle"
  have pre2: "ids.patient_id ?b2 \<noteq> JUndefined \<and> cabinet_id ?b2 \<noteq> JUndefined
      \<and> session_intakes ?b2 = Some ?its2"
    and pid: "ids.patient_id ?b2 = JNum 7"
    by (simp_all add: session_of_def)
  have found: "getCaretakerEmail ?e (JNum 7)
      = Inr \<lparr>patient = carer, caretakerEmail = ''carer@example.org''\<rparr>"
    by (simp add: getCaretakerEmail_def mail_down_at_def all_well_def carer_def)
  have r0: "0 < length ?its2 \<and> ingested (?its2 ! 0) = JBool False \<and> session_accepted ?e
      \<and> (\<forall>i<0. step_ok ?e (ids.patient_id ?b2) i (?its2 ! i)) \<and> intake_accepted ?e 0"
    by (simp add: dose_def mail_down_at_def all_well_def)
  have "\<not> step_ok ?e (JNum 7) 0 (?its2 ! 0)"
    by (simp add: step_ok_def notify_ok_def found) (simp add: dose_def mail_down_at_def all_well_def)
  then have r1: "\<not> (session_accepted ?e \<and> 1 < length ?its2
      \<and> (\<forall>i<1. step_ok ?e (ids.patient_id ?b2) i (?its2 ! i))
      \<and> intake_accepted ?e 1 \<and> \<not> truthy (ingested (?its2 ! 1)))"
    unfolding pid by auto
  from post_session_notifications [of ?b2 ?its2 ?e idle] pre2 obtain ms where
    ms: "outbox (final ?r2) = outbox idle @ ms"
      "\<forall>k. filter (\<lambda>n. fst n = k) ms
               = (if session_accepted ?e \<and> k < length ?its2
                     \<and> (\<forall>i<k. step_ok ?e (ids.patient_id ?b2) i (?its2 ! i))
                     \<and> intake_accepted ?e k \<and> \<not> truthy (ingested (?its2 ! k))
                  then (case getCaretakerEmail ?e (ids.patient_id ?b2) of
                          Inr found \<Rightarrow> [(k, caretakerEmail found)]
                        | Inl err \<Rightarrow> [])
                  else [])"
      "\<forall>k<length ?its2. ingested (?its2 ! k) = JBool False \<and> session_accepted ?e
               \<and> (\<forall>i<k. step_ok ?e (ids.patient_id ?b2) i (?its2 ! i)) \<and> intake_accepted ?e k \<longrightarrow>
             (\<forall>found. getCaretakerEmail ?e (ids.patient_id ?b2) = Inr found \<longrightarrow>
                filter (\<lambda>n. fst n = k) ms = [(k, caretakerEmail found)])"
    by blast
  from ms(3) r0 found have c: "filter (\<lambda>n. fst n = 0) ms = [(0, ''carer@example.org'')]"
    unfolding pid by fastforce
  from ms(2) have "filter (\<lambda>n. fst n = 1) ms
               = (if session_accepted ?e \<and> 1 < length ?its2
                     \<and> (\<forall>i<1. step_ok ?e (ids.patient_id ?b2) i (?its2 ! i))
                     \<and> intake_accepted ?e 1 \<and> \<not> truthy (ingested (?its2 ! 1))
                  then (case getCaretakerEmail ?e (ids.patient_id ?b2) of
                          Inr found \<Rightarrow> [(1, caretakerEmail found)]
                        | Inl err \<Rightarrow> [])
                  else [])"
    by blast
  then have d: "filter (\<lambda>n. fst n = 1) ms = []"
    unfolding if_not_P [OF r1] .
  have st: "status (reply ?r2) = 400"
    by (simp add: post_session_def create_def transaction_def rollback_def bad_request_def
          getCaretakerEmail_def sendEmailToCaretaker_def Let_def
          mail_down_at_def all_well_def carer_def dose_def session_of_def idle_def)
  have down: "filter (\<lambda>n. fst n = 0) (outbox (final ?r2)) = [(0, ''carer@example.org'')]
      \<and> filter (\<lambda>n. fst n = 1) (outbox (final ?r2)) = []"
    using c d unfolding ms(1) o by simp
  from up st down show ?thesis by simp
qed

text \<open>
  C4, as the claim states it, fails: a call stops at its first failing step. With two
  intakes whose \<open>ingested\<close> is false and a transport that rejects the first mail, one
  notification is attempted for the first intake and none for the second.
\<close>

theorem post_session_stops_notifying_after_failure:
  "session_intakes (session_of (JNum 3) (JNum 7) [dose (JBool False), dose (JBool False)])
     = Some [dose (JBool False), dose (JBool False)]
   \<and> ingested (dose (JBool False)) = JBool False
   \<and> outbox (final (post_session (mail_down_at 0)
        (session_of (JNum 3) (JNum 7) [dose (JBool False), dose (JBool False)]) idle))
     = [(0, ''carer@example.org'')]"
  by (simp add: post_session_def create_def transaction_def rollback_def bad_request_def
        getCaretakerEmail_def sendEmailToCaretaker_def Let_def
        mail_down_at_def all_well_def carer_def dose_def session_of_def idle_def)




subsection \<open>Schedule Recorder\<close>

lemma schedule_loop_pending:
  "pending (snd (schedule_loop e pid i items w)) = pending w"
  by (induction items arbitrary: i w) (auto simp: create_def)

lemma schedule_loop_error:
  "fst (schedule_loop e pid i items w) = None \<or> fst (schedule_loop e pid i items w) = Some StoreError"
  by (induction items arbitrary: i w) (auto simp: create_def)

lemma schedule_loop_accepted:
  "\<forall>k<length items. schedule_accepted e (i + k) \<Longrightarrow>
   schedule_loop e pid i items w
     = (None, w\<lparr>committed := committed w @ map (\<lambda>x. ScheduleRow (schedule_values pid x)) items\<rparr>)"
proof (induction items arbitrary: i w)
  case Nil
  then show ?case by simp
next
  case (Cons x xs)
  from Cons.prems have 0: "schedule_accepted e i" and r: "\<forall>k<length xs. schedule_accepted e (Suc i + k)"
    by (auto simp: All_less_Suc2)
  show ?case
    by (simp add: create_def 0 Cons.IH [OF r])
qed

lemma post_schedule_logged:
  "logged (post_schedule e b w) = Some ErrorConstructor
     \<longleftrightarrow> (ids.patient_id b = JUndefined \<or> cabinet_id b = JUndefined)"
proof (cases "ids.patient_id b = JUndefined \<or> cabinet_id b = JUndefined")
  case True
  then show ?thesis by (auto simp: post_schedule_def Let_def bad_request_def)
next
  case False
  show ?thesis
  proof (cases "medications b")
    case None
    with False show ?thesis by (simp add: post_schedule_def Let_def bad_request_def)
  next
    case (Some items)
    let ?l = "schedule_loop e (ids.patient_id b) 0 items (transaction w)"
    from schedule_loop_error [of e "ids.patient_id b" 0 items "transaction w"]
    have "fst ?l \<noteq> Some ErrorConstructor" by auto
    with False Some show ?thesis
      by (cases ?l; cases "fst ?l")
         (auto simp: post_schedule_def Let_def bad_request_def received_def)
  qed
qed

lemma post_schedule_success:
  assumes "ids.patient_id b \<noteq> JUndefined" "cabinet_id b \<noteq> JUndefined"
    "medications b = Some items" "\<forall>k<length items. schedule_accepted e k"
  shows "reply (post_schedule e b w) = \<lparr>status = 200, body = ''Schedule received successfully.''\<rparr>"
    and "committed (final (post_schedule e b w))
           = committed w @ map (\<lambda>x. ScheduleRow (schedule_values (ids.patient_id b) x)) items"
  using assms schedule_loop_accepted [of items e 0 "ids.patient_id b" "transaction w"]
  by (simp_all add: post_schedule_def Let_def received_def commit_def transaction_def)

text \<open>
  C2. The claim is that the Schedule rows of a call are written all or nothing. In
  \<open>post_schedule\<close> the rows are created without the transaction, so each is durable
  as soon as it is created: with two schedule items of which the store rejects the second,
  the call answers 400 Bad Request and the row of the first item stays in the store.
\<close>

theorem post_schedule_keeps_rows_of_failed_call:
  "reply (post_schedule (schedule_rejected_at 1)
            (schedule_of (JNum 3) (JNum 7) [planned (JStr ''Mon''), planned (JStr ''Tue'')]) idle)
     = \<lparr>status = 400, body = ''Bad Request''\<rparr>
   \<and> committed (final (post_schedule (schedule_rejected_at 1)
            (schedule_of (JNum 3) (JNum 7) [planned (JStr ''Mon''), planned (JStr ''Tue'')]) idle))
     = [ScheduleRow (schedule_values (JNum 7) (planned (JStr ''Mon'')))]"
  by (simp add: post_schedule_def create_def transaction_def rollback_def bad_request_def
        Let_def schedule_rejected_at_def all_well_def schedule_of_def idle_def)

subsection \<open>The identifier check\<close>

lemma post_session_logged:
  "logged (post_session e b w) = Some ErrorConstructor
     \<longleftrightarrow> (ids.patient_id b = JUndefined \<or> cabinet_id b = JUndefined)"
proof (cases "ids.patient_id b = JUndefined \<or> cabinet_id b = JUndefined")
  case True
  then show ?thesis by (simp add: post_session_undefined bad_request_def)
next
  case False
  then have p: "ids.patient_id b \<noteq> JUndefined" and c: "cabinet_id b \<noteq> JUndefined" by simp_all
  have "logged (post_session e b w) \<noteq> Some ErrorConstructor"
  proof (cases "session_accepted e")
    case no: False
    then show ?thesis by (simp add: post_session_rejected [OF p c] bad_request_def)
  next
    case True
    show ?thesis
    proof (cases "session_intakes b")
      case None
      then show ?thesis by (simp add: post_session_not_iterable [OF p c True] bad_request_def)
    next
      case (Some its)
      let ?l = "intake_loop e (ids.patient_id b) (new_session_id e) 0 its
                  ((transaction w)\<lparr>pending := [SessionRow (session_values (new_session_id e) b)]\<rparr>)"
      have "fst ?l \<noteq> Some ErrorConstructor" by (simp add: intake_loop_error)
      then show ?thesis
        by (cases ?l; cases "fst ?l")
           (auto simp: post_session_loop [OF p c True Some] bad_request_def received_def)
    qed
  qed
  with False show ?thesis by simp
qed

text \<open>
  C9. The identifier check of \<open>post_session\<close> and of \<open>post_schedule\<close> rejects a
  request (the thrown \<open>Error\<close> is logged and 400 is answered) exactly when
  \<open>patient_id\<close> or \<open>cabinet_id\<close> is undefined. Any other value of the two, null, the
  empty string, 0 or false included, passes: the writes are made, and when the store
  accepts them (and the notifications go through) the call answers 200 and the rows,
  carrying those identifiers, are durable.
\<close>

theorem identifier_check_rejects_only_undefined:
  "(logged (post_session e b w) = Some ErrorConstructor
      \<longleftrightarrow> (ids.patient_id b = JUndefined \<or> cabinet_id b = JUndefined))
   \<and> (logged (post_schedule e sb w) = Some ErrorConstructor
      \<longleftrightarrow> (ids.patient_id sb = JUndefined \<or> cabinet_id sb = JUndefined))
   \<and> (\<forall>its. ids.patient_id b \<noteq> JUndefined \<and> cabinet_id b \<noteq> JUndefined
        \<and> session_accepted e \<and> session_intakes b = Some its
        \<and> (\<forall>k<length its. step_ok e (ids.patient_id b) k (its ! k))
      \<longrightarrow> status (reply (post_session e b w)) = 200
          \<and> committed (final (post_session e b w))
              = committed w @ SessionRow (session_values (new_session_id e) b)
                  # map (\<lambda>x. SessionIntakeRow (intake_values (new_session_id e) x)) its)
   \<and> (\<forall>items. ids.patient_id sb \<noteq> JUndefined \<and> cabinet_id sb \<noteq> JUndefined
        \<and> medications sb = Some items \<and> (\<forall>k<length items. schedule_accepted e k)
      \<longrightarrow> status (reply (post_schedule e sb w)) = 200
          \<and> committed (final (post_schedule e sb w))
              = committed w @ map (\<lambda>x. ScheduleRow (schedule_values (ids.patient_id sb) x)) items)"
  using post_session_logged [of e b w] post_schedule_logged [of e sb w]
    post_session_success(1,3) [of b e _ w] post_schedule_success [of sb _ e w]
  by auto

theorem identifier_check_witness:
  "logged (post_session all_well (session_of (JNum 3) JUndefined []) idle) = Some ErrorConstructor
   \<and> logged (post_schedule all_well (schedule_of JUndefined (JNum 7) []) idle) = Some ErrorConstructor
   \<and> logged (post_session all_well (session_of JNull (JStr []) []) idle) \<noteq> Some ErrorConstructor
   \<and> status (reply (post_session all_well (session_of JNull (JStr []) []) idle)) = 200
   \<and> committed (final (post_session all_well (session_of JNull (JStr []) []) idle))
       = [SessionRow \<lparr>cabinet_id = JNull, ids.patient_id = JStr [], pk = 11\<rparr>]
   \<and> status (reply (post_schedule all_well
        (schedule_of (JNum 0) (JBool False) [planned (JStr ''Mon'')]) idle)) = 200
   \<and> committed (final (post_schedule all_well
        (schedule_of (JNum 0) (JBool False) [planned (JStr ''Mon'')]) idle))
       = [ScheduleRow (schedule_values (JBool False) (planned (JStr ''Mon'')))]"
proof -
  let ?u = "session_of (JNum 3) JUndefined []"
  let ?su = "schedule_of JUndefined (JNum 7) []"
  have u: "ids.patient_id ?u = JUndefined \<or> cabinet_id ?u = JUndefined"
    "ids.patient_id ?su = JUndefined \<or> cabinet_id ?su = JUndefined"
    by (simp_all add: session_of_def schedule_of_def)
  from identifier_check_rejects_only_undefined [of all_well ?u idle ?su] u
  have a: "logged (post_session all_well ?u idle) = Some ErrorConstructor
     \<and> logged (post_schedule all_well ?su idle) = Some ErrorConstructor"
    by blast
  let ?b = "session_of JNull (JStr []) []"
  let ?sb = "schedule_of (JNum 0) (JBool False) [planned (JStr ''Mon'')]"
  have n: "\<not> (ids.patient_id ?b = JUndefined \<or> cabinet_id ?b = JUndefined)"
    by (simp add: session_of_def)
  have ok: "ids.patient_id ?b \<noteq> JUndefined \<and> cabinet_id ?b \<noteq> JUndefined
        \<and> session_accepted all_well \<and> session_intakes ?b = Some []
        \<and> (\<forall>k<length ([] :: session_intake list). step_ok all_well (ids.patient_id ?b) k ([] ! k))"
    by (simp add: session_of_def) (simp add: all_well_def)
  have sok: "ids.patient_id ?sb \<noteq> JUndefined \<and> cabinet_id ?sb \<noteq> JUndefined
        \<and> medications ?sb = Some [planned (JStr ''Mon'')]
        \<and> (\<forall>k<length [planned (JStr ''Mon'')]. schedule_accepted all_well k)"
    by (simp add: schedule_of_def) (simp add: all_well_def)
  from identifier_check_rejects_only_undefined [of all_well ?b idle ?sb] n ok sok
  have b: "logged (post_session all_well ?b idle) \<noteq> Some ErrorConstructor
     \<and> status (reply (post_session all_well ?b idle)) = 200
     \<and> committed (final (post_session all_well ?b idle))
         = committed idle @ SessionRow (session_values (new_session_id all_well) ?b)
             # map (\<lambda>x. SessionIntakeRow (intake_values (new_session_id all_well) x)) []
     \<and> status (reply (post_schedule all_well ?sb idle)) = 200
     \<and> committed (final (post_schedule all_well ?sb idle))
         = committed idle @ map (\<lambda>x. ScheduleRow (schedule_values (ids.patient_id ?sb) x))
             [planned (JStr ''Mon'')]"
    by blast
  have v: "committed idle = []" "new_session_id all_well = 11"
    "session_values 11 ?b = \<lparr>cabinet_id = JNull, ids.patient_id = JStr [], pk = 11\<rparr>"
    "ids.patient_id ?sb = JBool False"
    by (simp_all add: idle_def all_well_def session_values_def session_of_def schedule_of_def)
  from a b show ?thesis by (simp add: v)
qed

subsection \<open>Ingestion times\<close>

text \<open>
  C3. The claim is an average of 10 minutes for two intakes of one medication that took 5
  and 15 minutes. \<open>getIngestionTime\<close> divides the difference of the two Dates, which
  is a number of milliseconds, by 60: for these two intakes it reports
  \<open>(300000 / 60 + 900000 / 60) / 2 = 10000\<close>.
\<close>

theorem getIngestionTime_divides_milliseconds:
  "getIngestionTime
     (\<lambda>i. Returned [taken_in (JDate (Some 0)) (JDate (Some 300000)),
                     taken_in (JDate (Some 0)) (JDate (Some 900000))])
     (\<lambda>s. None) (JNum 7)
   = Inr [\<lparr>average_time.brand_name = ''Aspirin'',
           average_time.generic_name = ''acetylsalicylic acid'',
           average_ingestion_time = Some 10000\<rparr>]"
  by (simp add: getIngestionTime_def groupBy_def own_properties_def array_index_def is_digit_def
        average_of_def meanBy_def ingestion_of_def elapsed_def taken_in_def aspirin_summary_def
        Let_def)

text \<open>
  Only when the two times are stored as bare numbers of seconds, which
  \<^verbatim>\<open>new Date\<close> reads as milliseconds, does the division by 60 give minutes; when they
  are strings that \<^verbatim>\<open>Date.parse\<close> does not read, the average is NaN.
\<close>

lemma getIngestionTime_seconds_as_numbers:
  "getIngestionTime
     (\<lambda>i. Returned [taken_in (JNum 0) (JNum 300), taken_in (JNum 0) (JNum 900)])
     (\<lambda>s. None) (JNum 7)
   = Inr [\<lparr>average_time.brand_name = ''Aspirin'',
           average_time.generic_name = ''acetylsalicylic acid'',
           average_ingestion_time = Some 10\<rparr>]"
  by (simp add: getIngestionTime_def groupBy_def own_properties_def array_index_def is_digit_def
        average_of_def meanBy_def ingestion_of_def elapsed_def taken_in_def aspirin_summary_def
        TimeClip_def Let_def)

lemma getIngestionTime_unparsed_strings:
  "getIngestionTime
     (\<lambda>i. Returned [taken_in (JStr ''00:00:00'') (JStr ''00:05:00''),
                     taken_in (JStr ''00:00:00'') (JStr ''00:15:00'')])
     (\<lambda>s. None) (JNum 7)
   = Inr [\<lparr>average_time.brand_name = ''Aspirin'',
           average_time.generic_name = ''acetylsalicylic acid'',
           average_ingestion_time = None\<rparr>]"
  by (simp add: getIngestionTime_def groupBy_def own_properties_def array_index_def is_digit_def
        average_of_def meanBy_def ingestion_of_def elapsed_def taken_in_def aspirin_summary_def
        Let_def)

end
